theory Spec2Isabelle
  imports Main "HOL-Library.Word" "HOL-Library.Sublist" "HOL-Library.Multiset"
begin

section \<open>The photo organizer (package photo, organizer.go) as HOL functions\<close>

text \<open>
  The program walks a source directory, resolves a creation date and an MD5 checksum
  for every file and copies each file into a dated folder, the no-data folder or the
  duplicates folder. Everything the Go code obtains from the operating system or from
  a library (the file system, the EXIF decoder, the media prober, the MD5 hasher) is a
  field of the record \<open>sys\<close> below, a function of an abstract world \<open>'w\<close>; the theorems
  hold for every such record, and the concrete worlds used in the examples are at the
  end of the definitions.
\<close>

subsection \<open>Strings, package strings and fmt\<close>

type_synonym path = string

text \<open>File names are taken to be ASCII text: bytes outside A-Z are left alone by the
  case mapping.\<close>

definition lower_char :: "char \<Rightarrow> char" where
  "lower_char c =
     (case map_of (zip ''ABCDEFGHIJKLMNOPQRSTUVWXYZ'' ''abcdefghijklmnopqrstuvwxyz'') c of
        Some l \<Rightarrow> l
      | None \<Rightarrow> c)"

definition strings_ToLower :: "string \<Rightarrow> string" where
  "strings_ToLower s = map lower_char s"

definition strings_EqualFold :: "string \<Rightarrow> string \<Rightarrow> bool" where
  "strings_EqualFold s t = (map lower_char s = map lower_char t)"

definition strings_HasPrefix :: "string \<Rightarrow> string \<Rightarrow> bool" where
  "strings_HasPrefix s pre = (take (length pre) s = pre)"

definition strings_HasSuffix :: "string \<Rightarrow> string \<Rightarrow> bool" where
  "strings_HasSuffix s suf = (length suf \<le> length s \<and> drop (length s - length suf) s = suf)"

definition strings_TrimSuffix :: "string \<Rightarrow> string \<Rightarrow> string" where
  "strings_TrimSuffix s suf =
     (if strings_HasSuffix s suf then take (length s - length suf) s else s)"

definition digit_char :: "nat \<Rightarrow> char" where
  "digit_char d = ''0123456789'' ! d"

text \<open>Decimal rendering of a non-negative integer, the verb \<open>%d\<close> of fmt.Sprintf.\<close>

fun itoa :: "nat \<Rightarrow> string" where
  "itoa n = (if n < 10 then [digit_char n] else itoa (n div 10) @ [digit_char (n mod 10)])"

declare itoa.simps [simp del]

text \<open>A number padded with zeros on the left to a width, as time.Format writes the
  fields of a date (appendInt).\<close>

definition appendInt :: "nat \<Rightarrow> nat \<Rightarrow> string" where
  "appendInt n width = replicate (width - length (itoa n)) (CHR ''0'') @ itoa n"

subsection \<open>Package path/filepath (Unix separators)\<close>

definition last_elem :: "string \<Rightarrow> string" where
  "last_elem p = rev (takeWhile (\<lambda>c. c \<noteq> CHR ''/'') (rev p))"

text \<open>filepath.Split cuts right after the final separator.\<close>

definition filepath_Split :: "path \<Rightarrow> path \<times> string" where
  "filepath_Split p = (take (length p - length (last_elem p)) p, last_elem p)"

text \<open>filepath.Ext: the suffix of the final element that starts at its last dot.\<close>

definition filepath_Ext :: "path \<Rightarrow> string" where
  "filepath_Ext p =
     (let e = last_elem p in
      if CHR ''.'' \<in> set e then CHR ''.'' # rev (takeWhile (\<lambda>c. c \<noteq> CHR ''.'') (rev e)) else [])"

definition strip_slashes :: "string \<Rightarrow> string" where
  "strip_slashes p = rev (dropWhile (\<lambda>c. c = CHR ''/'') (rev p))"

text \<open>filepath.Base: the last element, trailing separators removed first.\<close>

definition filepath_Base :: "path \<Rightarrow> string" where
  "filepath_Base p =
     (if p = [] then ''.''
      else let q = last_elem (strip_slashes p) in if q = [] then ''/'' else q)"

text \<open>The elements of a path between its separators.\<close>

fun split_elems :: "string \<Rightarrow> string \<Rightarrow> string list" where
  "split_elems [] cur = [rev cur]"
| "split_elems (c # cs) cur =
     (if c = CHR ''/'' then rev cur # split_elems cs [] else split_elems cs (c # cur))"

text \<open>filepath.Clean, on the elements: empty and \<open>.\<close> elements go, a \<open>..\<close> removes
  the element before it, is dropped at the root, and is kept at the start of a
  relative path. The accumulator holds the output elements, last first.\<close>

fun clean_elems :: "bool \<Rightarrow> string list \<Rightarrow> string list \<Rightarrow> string list" where
  "clean_elems rooted [] acc = rev acc"
| "clean_elems rooted (e # es) acc =
     (if e = [] \<or> e = ''.'' then clean_elems rooted es acc
      else if e = ''..'' then
        (case acc of
           [] \<Rightarrow> if rooted then clean_elems rooted es [] else clean_elems rooted es [''..'']
         | a # as \<Rightarrow> if a = ''..'' then clean_elems rooted es (''..'' # acc)
                     else clean_elems rooted es as)
      else clean_elems rooted es (e # acc))"

fun join_elems :: "string list \<Rightarrow> string" where
  "join_elems [] = []"
| "join_elems [e] = e"
| "join_elems (e # es) = e @ ''/'' @ join_elems es"

definition filepath_Clean :: "path \<Rightarrow> path" where
  "filepath_Clean p =
     (if p = [] then ''.''
      else let rooted = (hd p = CHR ''/'');
               out = (if rooted then ''/'' else []) @ join_elems (clean_elems rooted (split_elems p []) [])
           in if out = [] then ''.'' else out)"

text \<open>filepath.Join: the elements from the first non-empty one on, joined by
  separators and cleaned; the empty string when every element is empty.\<close>

definition filepath_Join :: "string list \<Rightarrow> path" where
  "filepath_Join elem =
     (case dropWhile (\<lambda>e. e = []) elem of
        [] \<Rightarrow> []
      | es \<Rightarrow> filepath_Clean (join_elems es))"

subsection \<open>Package time: the zero time, Format and Parse\<close>

text \<open>A time.Time is modelled by its civil fields in UTC. Every time of the program
  is either the zero value or the result of a parser, whose fields are in range.\<close>

record time =
  Year :: nat
  Month :: nat
  Day :: nat
  Hour :: nat
  Minute :: nat
  Second :: nat
  Nanosecond :: nat

text \<open>\<open>time.Time{}\<close> is January 1 of year 1, 00:00:00 UTC.\<close>

definition time_zero :: time where
  "time_zero = \<lparr>Year = 1, Month = 1, Day = 1, Hour = 0, Minute = 0, Second = 0, Nanosecond = 0\<rparr>"

definition IsZero :: "time \<Rightarrow> bool" where
  "IsZero t = (t = time_zero)"

text \<open>\<open>date.Format\<close> for the three layouts processFile uses: the year in four digits,
  the month and the day in two. The program passes no other layout.\<close>

definition Format :: "time \<Rightarrow> string \<Rightarrow> string" where
  "Format t layout =
     (if layout = ''2006'' then appendInt (Year t) 4
      else if layout = ''01'' then appendInt (Month t) 2
      else if layout = ''02'' then appendInt (Day t) 2
      else layout)"

definition isDigit :: "char \<Rightarrow> bool" where
  "isDigit c = (c \<in> set ''0123456789'')"

definition digit_val :: "char \<Rightarrow> nat" where
  "digit_val c = (case map_of (zip ''0123456789'' [0, 1, 2, 3, 4, 5, 6, 7, 8, 9]) c of
                    Some d \<Rightarrow> d | None \<Rightarrow> 0)"

definition digits_val :: "string \<Rightarrow> nat" where
  "digits_val ds = foldl (\<lambda>a c. a * 10 + digit_val c) 0 ds"

text \<open>\<open>getnum(s, fixed)\<close> of package time: one or two digits; exactly two when
  \<open>fixed\<close>.\<close>

definition getnum :: "string \<Rightarrow> bool \<Rightarrow> (nat \<times> string) option" where
  "getnum s fixed =
     (case s of
        [] \<Rightarrow> None
      | c # r \<Rightarrow>
          if \<not> isDigit c then None
          else (case r of
                  [] \<Rightarrow> if fixed then None else Some (digit_val c, r)
                | d # r' \<Rightarrow>
                    if \<not> isDigit d then (if fixed then None else Some (digit_val c, r))
                    else Some (digit_val c * 10 + digit_val d, r')))"

definition cutspace :: "string \<Rightarrow> string" where
  "cutspace s = dropWhile (\<lambda>c. c = CHR '' '') s"

text \<open>\<open>skip(value, prefix)\<close> of package time removes the literal text of the
  layout from the value; a space of the layout stands for any run of spaces.\<close>

function skip :: "string \<Rightarrow> string \<Rightarrow> string option" where
  "skip v [] = Some v"
| "skip v (p # ps) =
     (if p = CHR '' '' then
        (if v \<noteq> [] \<and> hd v \<noteq> CHR '' '' then None else skip (cutspace v) (cutspace ps))
      else (case v of
              [] \<Rightarrow> None
            | c # cs \<Rightarrow> if c \<noteq> p then None else skip cs ps))"
  by pat_completeness auto
termination
  by (relation "measure (\<lambda>(v, p). length p)")
     (auto simp: cutspace_def intro: le_imp_less_Suc length_dropWhile_le)

text \<open>The four digits of \<open>2006\<close> (stdLongYear).\<close>

definition getyear :: "string \<Rightarrow> (nat \<times> string) option" where
  "getyear v =
     (if length v < 4 \<or> \<not> list_all isDigit (take 4 v) then None
      else Some (digits_val (take 4 v), drop 4 v))"

text \<open>A fractional second in the value that the layout does not mention is read
  after the seconds field: a period or comma and digits, scaled to nanoseconds from
  at most nine digits.\<close>

definition getfrac :: "string \<Rightarrow> nat \<times> string" where
  "getfrac v =
     (case v of
        s # d # r \<Rightarrow>
          if (s = CHR ''.'' \<or> s = CHR '','') \<and> isDigit d then
            (let ds = takeWhile isDigit (d # r); ds9 = take 9 ds
             in (digits_val ds9 * 10 ^ (9 - length ds9), dropWhile isDigit (d # r)))
          else (0, v)
      | _ \<Rightarrow> (0, v))"

definition isLeap :: "nat \<Rightarrow> bool" where
  "isLeap y = (y mod 4 = 0 \<and> (y mod 100 \<noteq> 0 \<or> y mod 400 = 0))"

definition daysIn :: "nat \<Rightarrow> nat \<Rightarrow> nat" where
  "daysIn m y =
     (if m = 2 \<and> isLeap y then 29
      else [31, 28, 31, 30, 31, 30, 31, 31, 30, 31, 30, 31] ! (m - 1))"

text \<open>\<open>time.Parse("2006-01-02 15:04:05 UTC", v)\<close>. The layout holds the fields year,
  month, day, hour, minute and second; its tail \<open>UTC\<close> is no field of the layout
  language (the zone field is written \<open>MST\<close>), so it is literal text that the value
  must repeat. \<open>None\<close> is the parse error.\<close>

definition parse_date :: "string \<Rightarrow> ((nat \<times> nat \<times> nat) \<times> string) option" where
  "parse_date v0 =
     Option.bind (getyear v0) (\<lambda>(year, v1).
     Option.bind (skip v1 ''-'') (\<lambda>v2.
     Option.bind (getnum v2 True) (\<lambda>(month, v3).
     if month \<le> 0 \<or> 12 < month then None else
     Option.bind (skip v3 ''-'') (\<lambda>v4.
     Option.bind (getnum v4 True) (\<lambda>(day, v5).
     Some ((year, month, day), v5))))))"

definition parse_clock :: "string \<Rightarrow> ((nat \<times> nat \<times> nat \<times> nat) \<times> string) option" where
  "parse_clock v6 =
     Option.bind (getnum v6 False) (\<lambda>(hour, v7).
     if 24 \<le> hour then None else
     Option.bind (skip v7 '':'') (\<lambda>v8.
     Option.bind (getnum v8 True) (\<lambda>(minute, v9).
     if 60 \<le> minute then None else
     Option.bind (skip v9 '':'') (\<lambda>v10.
     Option.bind (getnum v10 True) (\<lambda>(sec, v11).
     if 60 \<le> sec then None else
     (case getfrac v11 of (nsec, v12) \<Rightarrow> Some ((hour, minute, sec, nsec), v12)))))))"

definition time_Parse :: "string \<Rightarrow> time option" where
  "time_Parse v0 =
     Option.bind (parse_date v0) (\<lambda>((year, month, day), v5).
     Option.bind (skip v5 '' '') (\<lambda>v6.
     Option.bind (parse_clock v6) (\<lambda>((hour, minute, sec, nsec), v12).
     Option.bind (skip v12 '' UTC'') (\<lambda>v13.
     if v13 \<noteq> [] then None
     else if day < 1 \<or> daysIn month year < day then None
     else Some \<lparr>Year = year, Month = month, Day = day, Hour = hour, Minute = minute,
                 Second = sec, Nanosecond = nsec\<rparr>))))"

subsection \<open>The progress state (type State)\<close>

text \<open>Go's \<open>int\<close> is a 64-bit machine integer on the 64-bit platforms: \<open>++\<close> wraps
  around. The mutex of the struct makes every method one atomic step, so a method is a
  function on the record and concurrent callers are a sequence of such steps.\<close>

record State =
  processed :: "64 word"
  total :: "64 word"
  message :: string
  duplicates :: "64 word"
  errorCount :: "64 word"

definition NewState :: "64 word \<Rightarrow> State" where
  "NewState n = \<lparr>processed = 0, total = n, message = ''Initializing...'',
                 duplicates = 0, errorCount = 0\<rparr>"

definition GetTotalCount :: "State \<Rightarrow> 64 word" where
  "GetTotalCount s = total s"

definition GetProcessedCount :: "State \<Rightarrow> 64 word" where
  "GetProcessedCount s = processed s"

definition GetDuplicateCount :: "State \<Rightarrow> 64 word" where
  "GetDuplicateCount s = duplicates s"

definition GetErrorCount :: "State \<Rightarrow> 64 word" where
  "GetErrorCount s = errorCount s"

definition IncrementProcessed :: "State \<Rightarrow> State" where
  "IncrementProcessed s = s\<lparr>processed := processed s + 1\<rparr>"

definition IncrementDuplicates :: "State \<Rightarrow> State" where
  "IncrementDuplicates s = s\<lparr>duplicates := duplicates s + 1\<rparr>"

definition IncrementError :: "State \<Rightarrow> State" where
  "IncrementError s = s\<lparr>errorCount := errorCount s + 1\<rparr>"

definition UpdateMessage :: "State \<Rightarrow> string \<Rightarrow> State" where
  "UpdateMessage s m = s\<lparr>message := m\<rparr>"

text \<open>\<open>Status\<close> returns \<open>*s\<close>, a copy of the struct, under the read lock.\<close>

definition Status :: "State \<Rightarrow> State" where
  "Status s = s"

text \<open>The writers of a State, for sequences of concurrent calls.\<close>

datatype state_op = OpIncrementProcessed | OpIncrementDuplicates | OpIncrementError
  | OpUpdateMessage string

fun apply_state_op :: "State \<Rightarrow> state_op \<Rightarrow> State" where
  "apply_state_op s OpIncrementProcessed = IncrementProcessed s"
| "apply_state_op s OpIncrementDuplicates = IncrementDuplicates s"
| "apply_state_op s OpIncrementError = IncrementError s"
| "apply_state_op s (OpUpdateMessage m) = UpdateMessage s m"

definition apply_state_ops :: "State \<Rightarrow> state_op list \<Rightarrow> State" where
  "apply_state_ops s ops = foldl apply_state_op s ops"

subsection \<open>The operating system and the libraries\<close>

datatype error =
    FailedToOpenFile | FailedToResetFilePointer | FailedToCalculateChecksum
  | FailedToCopyDuplicateFile error | FailedToCreateDirectory | FailedToCopyFile error
  | FailedToOpenSourceFile | FailedToCreateDestinationFile | FailedToCopyFileContents
  | FailedToGetSourceFileInfo | FailedToSetFilePermissions | FailedToMoveFile
  | NotAValidVideoFile | FailedToRetrieveVideoMetadata | NoVideoTrackFound
  | NoTaggedDateFound | FailedToParseVideoCreationDate
  | FailedToCreateDuplicatesDirectory | FailedToCreateNoDataDirectory
  | FailedToOpenLogFile | WalkError | ErrorCountingFiles error

text \<open>os.Stat: no error (with the file mode), an error that os.IsNotExist accepts, or
  any other error.\<close>

datatype stat_result = StatOk nat | StatNotExist | StatError

fun stat_ok :: "stat_result \<Rightarrow> bool" where
  "stat_ok (StatOk m) = True"
| "stat_ok StatNotExist = False"
| "stat_ok StatError = False"

text \<open>A decoded EXIF block, by what its method DateTime returns (\<open>None\<close>: an error).\<close>

datatype exif = Exif "time option"

fun DateTime :: "exif \<Rightarrow> time option" where
  "DateTime (Exif d) = d"

record track =
  TaggedDate :: string

text \<open>The prober's answer, by what GetFirstVideoTrack returns (\<open>None\<close>: nil).\<close>

datatype mediainfo = MediaInfo "track option"

fun GetFirstVideoTrack :: "mediainfo \<Rightarrow> track option" where
  "GetFirstVideoTrack (MediaInfo t) = t"

text \<open>What filepath.Walk hands to its callback, in order, as long as the callback
  returns nil: an entry with its path, name and directory flag, or an error.\<close>

datatype walk_entry = Visit path string bool | VisitError path

text \<open>
  The calls the program makes, as functions of the world \<open>'w\<close>. An open file is named
  by its path. Calls that write return the new world, with \<open>True\<close> for a nil error.
  \<^item> \<open>os_Open\<close>: os.Open succeeds;
  \<^item> \<open>exif_Decode\<close>: exif.Decode on the open file (\<open>None\<close>: an error);
  \<^item> \<open>yami_GetMediaInfo\<close>: yami.GetMediaInfo with its timeout in seconds and its
    option string (\<open>None\<close>: an error, a timeout included);
  \<^item> \<open>file_Seek\<close>: file.Seek(0, io.SeekStart) succeeds;
  \<^item> \<open>md5_Sum\<close>: io.Copy into md5.New() and Sum(nil), the 16 bytes of the digest as
    one 128-bit word (\<open>None\<close>: the copy failed);
  \<^item> \<open>io_Copy w dest src\<close>, \<open>os_Chmod w dest mode\<close>, \<open>os_Rename w src dest\<close>;
  \<^item> \<open>file_WriteString w f s\<close>: WriteString on the log file, whose error the program
    drops.
\<close>

record 'w sys =
  os_Open :: "'w \<Rightarrow> path \<Rightarrow> bool"
  exif_Decode :: "'w \<Rightarrow> path \<Rightarrow> exif option"
  yami_GetMediaInfo :: "'w \<Rightarrow> path \<Rightarrow> nat \<Rightarrow> string \<Rightarrow> mediainfo option"
  file_Seek :: "'w \<Rightarrow> path \<Rightarrow> bool"
  md5_Sum :: "'w \<Rightarrow> path \<Rightarrow> 128 word option"
  os_Stat :: "'w \<Rightarrow> path \<Rightarrow> stat_result"
  os_MkdirAll :: "'w \<Rightarrow> path \<Rightarrow> bool \<times> 'w"
  os_OpenFile :: "'w \<Rightarrow> path \<Rightarrow> bool \<times> 'w"
  os_Create :: "'w \<Rightarrow> path \<Rightarrow> bool \<times> 'w"
  io_Copy :: "'w \<Rightarrow> path \<Rightarrow> path \<Rightarrow> bool \<times> 'w"
  os_Chmod :: "'w \<Rightarrow> path \<Rightarrow> nat \<Rightarrow> bool \<times> 'w"
  file_WriteString :: "'w \<Rightarrow> path \<Rightarrow> string \<Rightarrow> 'w"
  os_Rename :: "'w \<Rightarrow> path \<Rightarrow> path \<Rightarrow> bool \<times> 'w"
  filepath_Walk :: "'w \<Rightarrow> path \<Rightarrow> walk_entry list"

subsection \<open>Dates: isVideoFile, getVideoCreationDate, getPhotoCreationDate\<close>

definition videoExtensions :: "string list" where
  "videoExtensions = [''.mp4'', ''.avi'', ''.mov'', ''.mkv'', ''.wmv'']"

definition isVideoFile :: "string \<Rightarrow> bool" where
  "isVideoFile extension = list_ex (\<lambda>ext. strings_EqualFold extension ext) videoExtensions"

definition getVideoCreationDate :: "'w sys \<Rightarrow> 'w \<Rightarrow> path \<Rightarrow> error + time" where
  "getVideoCreationDate sys w filePath =
     (if \<not> isVideoFile (filepath_Ext filePath) then Inl NotAValidVideoFile
      else case yami_GetMediaInfo sys w filePath 10 ''--Language=raw'' of
        None \<Rightarrow> Inl FailedToRetrieveVideoMetadata
      | Some info \<Rightarrow>
          (case GetFirstVideoTrack info of
             None \<Rightarrow> Inl NoVideoTrackFound
           | Some videoTrack \<Rightarrow>
               if TaggedDate videoTrack = [] then Inl NoTaggedDateFound
               else (case time_Parse (TaggedDate videoTrack) of
                       None \<Rightarrow> Inl FailedToParseVideoCreationDate
                     | Some creationDate \<Rightarrow> Inr creationDate)))"

definition getPhotoCreationDate :: "'w sys \<Rightarrow> 'w \<Rightarrow> path \<Rightarrow> time \<Rightarrow> time" where
  "getPhotoCreationDate sys w file date =
     (case exif_Decode sys w file of
        Some x \<Rightarrow> (case DateTime x of Some d \<Rightarrow> d | None \<Rightarrow> time_zero)
      | None \<Rightarrow> time_zero)"

text \<open>The date processFile works with (its lines from \<open>extension :=\<close> to the end of the
  if statement on isVideoFile).\<close>

definition resolveDate :: "'w sys \<Rightarrow> 'w \<Rightarrow> path \<Rightarrow> time" where
  "resolveDate sys w p =
     (let extension = strings_ToLower (filepath_Ext p) in
      if isVideoFile extension then
        (case getVideoCreationDate sys w p of Inl err \<Rightarrow> time_zero | Inr date \<Rightarrow> date)
      else getPhotoCreationDate sys w p time_zero)"

subsection \<open>Checksums\<close>

definition hex_char :: "nat \<Rightarrow> char" where
  "hex_char n = ''0123456789abcdef'' ! n"

text \<open>hex.EncodeToString of the 16 bytes of a digest, most significant first.\<close>

definition hex_EncodeToString :: "128 word \<Rightarrow> string" where
  "hex_EncodeToString d = map (\<lambda>i. hex_char (unat (drop_bit (4 * (31 - i)) d) mod 16)) [0..<32]"

definition calculateChecksum :: "'w sys \<Rightarrow> 'w \<Rightarrow> path \<Rightarrow> error + string" where
  "calculateChecksum sys w file =
     (case md5_Sum sys w file of
        None \<Rightarrow> Inl FailedToCalculateChecksum
      | Some d \<Rightarrow> Inr (hex_EncodeToString d))"

subsection \<open>copyFile, moveFile, resolveNamingConflict\<close>

definition copyFile :: "'w sys \<Rightarrow> 'w \<Rightarrow> path \<Rightarrow> path \<Rightarrow> error option \<times> 'w" where
  "copyFile sys w src dest =
     (if \<not> os_Open sys w src then (Some FailedToOpenSourceFile, w)
      else case os_Create sys w dest of (created, w1) \<Rightarrow>
        if \<not> created then (Some FailedToCreateDestinationFile, w1)
        else case io_Copy sys w1 dest src of (copied, w2) \<Rightarrow>
          if \<not> copied then (Some FailedToCopyFileContents, w2)
          else (case os_Stat sys w2 src of
                  StatOk mode \<Rightarrow>
                    (case os_Chmod sys w2 dest mode of (changed, w3) \<Rightarrow>
                       if \<not> changed then (Some FailedToSetFilePermissions, w3) else (None, w3))
                | StatNotExist \<Rightarrow> (Some FailedToGetSourceFileInfo, w2)
                | StatError \<Rightarrow> (Some FailedToGetSourceFileInfo, w2)))"


text \<open>The name tried in round \<open>i\<close> of resolveNamingConflict.\<close>

definition numbered :: "path \<Rightarrow> string \<Rightarrow> string \<Rightarrow> nat \<Rightarrow> path" where
  "numbered dir base ext i = filepath_Join [dir, base @ ''_'' @ itoa i @ ext]"

text \<open>The loop \<open>for i := 1; ; i++\<close> has no bound: it runs until os.Stat reports that a
  name does not exist, and forever if that never happens (\<open>None\<close>). The counter is a
  natural number: the loop would need \<open>2^63\<close> rounds before a Go \<open>int\<close> wraps.\<close>

partial_function (option) resolveNamingConflict_loop ::
  "(path \<Rightarrow> stat_result) \<Rightarrow> path \<Rightarrow> string \<Rightarrow> string \<Rightarrow> nat \<Rightarrow> path option" where
  "resolveNamingConflict_loop stat dir base ext i =
     (if stat (numbered dir base ext i) = StatNotExist then Some (numbered dir base ext i)
      else resolveNamingConflict_loop stat dir base ext (i + 1))"

definition resolveNamingConflict :: "'w sys \<Rightarrow> 'w \<Rightarrow> path \<Rightarrow> path option" where
  "resolveNamingConflict sys w p =
     (case filepath_Split p of (dir, file) \<Rightarrow>
        let ext = filepath_Ext file; base = strings_TrimSuffix file ext
        in resolveNamingConflict_loop (os_Stat sys w) dir base ext 1)"

text \<open>The step both branches of processFile share: a target that os.Stat finds is
  replaced by the result of resolveNamingConflict.\<close>

definition resolveIfExists :: "'w sys \<Rightarrow> 'w \<Rightarrow> path \<Rightarrow> path option" where
  "resolveIfExists sys w p =
     (if stat_ok (os_Stat sys w p) then resolveNamingConflict sys w p else Some p)"

subsection \<open>processFile\<close>

text \<open>A call returns its value, or the Go runtime panics.\<close>

datatype 'a outcome = Returned 'a | Panicked

datatype msg = ProgressTickMsg

text \<open>What a run works on: the world, the map \<open>duplicates\<close> of ProcessFiles (checksum
  to paths), the progress state, and the messages the messenger received.\<close>

record 'w run =
  world :: 'w
  duplicates_map :: "string \<rightharpoonup> path list"
  state :: State
  sent :: "msg list"

definition duplicate_line :: "path \<Rightarrow> path \<Rightarrow> string" where
  "duplicate_line p first =
     ''Duplicate detected: '' @ p @ '' (duplicate of: '' @ first @ '')'' @ [CHR 0x0A]"

text \<open>The branch of processFile for a checksum that the map holds. The expression
  \<open>paths[0]\<close> of the log line panics on an empty list, after the map and the counter
  were updated.\<close>

definition processDuplicate ::
  "'w sys \<Rightarrow> path \<Rightarrow> path \<Rightarrow> path \<Rightarrow> string \<Rightarrow> path list \<Rightarrow> 'w run
     \<Rightarrow> (error option outcome \<times> 'w run) option" where
  "processDuplicate sys p duplicatesDir logFile checksum paths r =
     (case resolveIfExists sys (world r) (filepath_Join [duplicatesDir, filepath_Base p]) of
        None \<Rightarrow> None
      | Some duplicatePath \<Rightarrow>
          (case copyFile sys (world r) p duplicatePath of
             (Some err, w1) \<Rightarrow>
               Some (Returned (Some (FailedToCopyDuplicateFile err)), r\<lparr>world := w1\<rparr>)
           | (None, w1) \<Rightarrow>
               let r1 = r\<lparr>world := w1,
                          duplicates_map := (duplicates_map r)(checksum \<mapsto> paths @ [p]),
                          state := IncrementDuplicates (state r)\<rparr>
               in (case paths of
                     [] \<Rightarrow> Some (Panicked, r1)
                   | first # rest \<Rightarrow>
                       Some (Returned None,
                             r1\<lparr>world := file_WriteString sys w1 logFile (duplicate_line p first)\<rparr>))))"

text \<open>The destination of a file with a date, before any conflict is resolved.\<close>

definition destFolder_of :: "path \<Rightarrow> time \<Rightarrow> path" where
  "destFolder_of destDir date =
     filepath_Join [destDir, Format date ''2006'', Format date ''01'', Format date ''02'']"

definition destFileName_of :: "path \<Rightarrow> string \<Rightarrow> string" where
  "destFileName_of p checksum =
     strings_TrimSuffix (filepath_Base p) (filepath_Ext p) @ ''_'' @ take 8 checksum @ filepath_Ext p"

text \<open>The branch for a checksum that the map does not hold; its first part chooses the
  destination (and creates the dated folder), its second part copies and registers.\<close>

definition chooseDestPath ::
  "'w sys \<Rightarrow> path \<Rightarrow> path \<Rightarrow> path \<Rightarrow> time \<Rightarrow> string \<Rightarrow> 'w
     \<Rightarrow> ((error + path) \<times> 'w) option" where
  "chooseDestPath sys p destDir noDataDir date checksum w =
     (if IsZero date then
        (case resolveIfExists sys w (filepath_Join [noDataDir, filepath_Base p]) of
           None \<Rightarrow> None
         | Some destPath \<Rightarrow> Some (Inr destPath, w))
      else
        (case os_MkdirAll sys w (destFolder_of destDir date) of (made, w1) \<Rightarrow>
           if \<not> made then Some (Inl FailedToCreateDirectory, w1)
           else (case resolveIfExists sys w1
                        (filepath_Join [destFolder_of destDir date, destFileName_of p checksum]) of
                   None \<Rightarrow> None
                 | Some destPath \<Rightarrow> Some (Inr destPath, w1))))"

definition processCanonical ::
  "'w sys \<Rightarrow> path \<Rightarrow> path \<Rightarrow> path \<Rightarrow> time \<Rightarrow> string \<Rightarrow> 'w run
     \<Rightarrow> (error option outcome \<times> 'w run) option" where
  "processCanonical sys p destDir noDataDir date checksum r =
     (case chooseDestPath sys p destDir noDataDir date checksum (world r) of
        None \<Rightarrow> None
      | Some (Inl e, w1) \<Rightarrow> Some (Returned (Some e), r\<lparr>world := w1\<rparr>)
      | Some (Inr destPath, w1) \<Rightarrow>
          (case copyFile sys w1 p destPath of
             (Some err, w2) \<Rightarrow> Some (Returned (Some (FailedToCopyFile err)), r\<lparr>world := w2\<rparr>)
           | (None, w2) \<Rightarrow>
               Some (Returned None,
                     r\<lparr>world := w2, duplicates_map := (duplicates_map r)(checksum \<mapsto> [destPath])\<rparr>)))"

text \<open>processFile. The mutex \<open>mapLock\<close> makes the part from the map lookup on one atomic
  step; the part before it only reads. \<open>None\<close>: the call does not return.\<close>

definition processFile ::
  "'w sys \<Rightarrow> path \<Rightarrow> path \<Rightarrow> path \<Rightarrow> path \<Rightarrow> path \<Rightarrow> 'w run
     \<Rightarrow> (error option outcome \<times> 'w run) option" where
  "processFile sys p destDir duplicatesDir noDataDir logFile r =
     (if \<not> os_Open sys (world r) p then Some (Returned (Some FailedToOpenFile), r)
      else
        let date = resolveDate sys (world r) p in
        if \<not> file_Seek sys (world r) p then Some (Returned (Some FailedToResetFilePointer), r)
        else (case calculateChecksum sys (world r) p of
                Inl err \<Rightarrow> Some (Returned (Some FailedToCalculateChecksum), r)
              | Inr checksum \<Rightarrow>
                  (case duplicates_map r checksum of
                     Some paths \<Rightarrow> processDuplicate sys p duplicatesDir logFile checksum paths r
                   | None \<Rightarrow> processCanonical sys p destDir noDataDir date checksum r)))"

subsection \<open>CountFiles and ProcessFiles\<close>





text \<open>The body of a worker's loop for one path, after processFile returned.\<close>

definition after_file :: "error option \<Rightarrow> 'w run \<Rightarrow> 'w run" where
  "after_file err r =
     (let r1 = (if err \<noteq> None then r\<lparr>state := IncrementError (state r)\<rparr> else r);
          r2 = r1\<lparr>state := IncrementProcessed (state r1)\<rparr>
      in r2\<lparr>sent := sent r2 @ [ProgressTickMsg]\<rparr>)"

text \<open>The workers. The pool has runtime.NumCPU() of them, at least one; each takes a
  path from the channel and calls processFile, whose steps on the shared map are
  serialised by the mutex. The pool is modelled by the sequence in which the paths are
  handled, each call of processFile one step of it. A panic ends the program.\<close>

fun workers ::
  "'w sys \<Rightarrow> path \<Rightarrow> path \<Rightarrow> path \<Rightarrow> path \<Rightarrow> path list \<Rightarrow> 'w run
     \<Rightarrow> (unit outcome \<times> 'w run) option" where
  "workers sys destDir duplicatesDir noDataDir logFile [] r = Some (Returned (), r)"
| "workers sys destDir duplicatesDir noDataDir logFile (p # ps) r =
     (case processFile sys p destDir duplicatesDir noDataDir logFile r of
        None \<Rightarrow> None
      | Some (Panicked, r1) \<Rightarrow> Some (Panicked, r1)
      | Some (Returned err, r1) \<Rightarrow>
          workers sys destDir duplicatesDir noDataDir logFile ps (after_file err r1))"



subsection \<open>A small concrete world for the examples\<close>

text \<open>Files are an association list from paths to what the libraries read from them
  (digest, EXIF block, prober answer, mode); directories always exist; the log is a
  list of lines. Renaming fails in this world, as between two volumes.\<close>

record demo_file =
  f_digest :: "128 word"
  f_exif :: "exif option"
  f_media :: "mediainfo option"
  f_mode :: nat

record demo_world =
  d_files :: "(path \<times> demo_file) list"
  d_log :: "string list"
  d_tree :: "walk_entry list"

definition demo_empty_file :: demo_file where
  "demo_empty_file = \<lparr>f_digest = 0, f_exif = None, f_media = None, f_mode = 420\<rparr>"

definition demo_sys :: "demo_world sys" where
  "demo_sys =
     \<lparr>os_Open = (\<lambda>w p. map_of (d_files w) p \<noteq> None),
      exif_Decode = (\<lambda>w p. case map_of (d_files w) p of None \<Rightarrow> None | Some f \<Rightarrow> f_exif f),
      yami_GetMediaInfo =
        (\<lambda>w p secs opt. case map_of (d_files w) p of None \<Rightarrow> None | Some f \<Rightarrow> f_media f),
      file_Seek = (\<lambda>w p. True),
      md5_Sum = (\<lambda>w p. map_option f_digest (map_of (d_files w) p)),
      os_Stat = (\<lambda>w p. case map_of (d_files w) p of None \<Rightarrow> StatNotExist
                                                   | Some f \<Rightarrow> StatOk (f_mode f)),
      os_MkdirAll = (\<lambda>w p. (True, w)),
      os_OpenFile = (\<lambda>w p. (True, w)),
      os_Create = (\<lambda>w p. (True, w\<lparr>d_files := (p, demo_empty_file) # d_files w\<rparr>)),
      io_Copy = (\<lambda>w dest src. case map_of (d_files w) src of
                   None \<Rightarrow> (False, w)
                 | Some f \<Rightarrow> (True, w\<lparr>d_files := (dest, f) # d_files w\<rparr>)),
      os_Chmod = (\<lambda>w dest mode. (True, w)),
      file_WriteString = (\<lambda>w f s. w\<lparr>d_log := d_log w @ [s]\<rparr>),
      os_Rename = (\<lambda>w src dest. (False, w)),
      filepath_Walk = (\<lambda>w srcDir. d_tree w)\<rparr>"

definition may_2020 :: time where
  "may_2020 = \<lparr>Year = 2020, Month = 5, Day = 1, Hour = 10, Minute = 0, Second = 0, Nanosecond = 0\<rparr>"

definition photo_X :: demo_file where
  "photo_X = \<lparr>f_digest = 0xabcdef01000000000000000000000000,
              f_exif = Some (Exif (Some may_2020)), f_media = None, f_mode = 420\<rparr>"

definition plain_Y :: demo_file where
  "plain_Y = \<lparr>f_digest = 0x11111111000000000000000000000000,
              f_exif = None, f_media = None, f_mode = 420\<rparr>"

text \<open>The scenario of the specification: A and B with the same content and an EXIF
  date, C without metadata.\<close>

definition demo_w0 :: demo_world where
  "demo_w0 =
     \<lparr>d_files = [(''/s/A.jpg'', photo_X), (''/s/B.jpg'', photo_X), (''/s/C.txt'', plain_Y)],
      d_log = [],
      d_tree = [Visit ''/s'' ''s'' True, Visit ''/s/A.jpg'' ''A.jpg'' False,
                Visit ''/s/B.jpg'' ''B.jpg'' False, Visit ''/s/C.txt'' ''C.txt'' False]\<rparr>"

definition demo_r0 :: "demo_world run" where
  "demo_r0 = \<lparr>world = demo_w0, duplicates_map = Map.empty, state = NewState 3, sent = []\<rparr>"

definition cksum_X :: string where
  "cksum_X = ''abcdef01000000000000000000000000''"

definition placed_A :: path where
  "placed_A = ''/d/2020/05/01/A_abcdef01.jpg''"

text \<open>The run after A was handled, and after B was handled too.\<close>

definition demo_w1 :: demo_world where
  "demo_w1 = demo_w0\<lparr>d_files := (placed_A, photo_X) # (placed_A, demo_empty_file) # d_files demo_w0\<rparr>"

definition demo_r1 :: "demo_world run" where
  "demo_r1 = demo_r0\<lparr>world := demo_w1, duplicates_map := [cksum_X \<mapsto> [placed_A]]\<rparr>"

definition demo_w2 :: demo_world where
  "demo_w2 = demo_w1\<lparr>d_files := (''/d/duplicates/B.jpg'', photo_X)
                                   # (''/d/duplicates/B.jpg'', demo_empty_file) # d_files demo_w1,
                      d_log := [duplicate_line ''/s/B.jpg'' placed_A]\<rparr>"

definition demo_r2 :: "demo_world run" where
  "demo_r2 = demo_r1\<lparr>world := demo_w2,
                      duplicates_map := [cksum_X \<mapsto> [placed_A, ''/s/B.jpg'']],
                      state := IncrementDuplicates (NewState 3)\<rparr>"

text \<open>The same calls on a destination that cannot be written: os.Create fails.\<close>

definition readonly_sys :: "demo_world sys" where
  "readonly_sys = demo_sys\<lparr>os_Create := (\<lambda>w p. (False, w))\<rparr>"

text \<open>The world of the test of resolveNamingConflict: one file, then its first
  numbered copy beside it.\<close>

definition test_w :: demo_world where
  "test_w = \<lparr>d_files = [(''/t/test.txt'', plain_Y)], d_log = [], d_tree = []\<rparr>"

definition test_w1 :: demo_world where
  "test_w1 = snd (copyFile demo_sys test_w ''/t/test.txt'' ''/t/test_1.txt'')"














section \<open>Properties\<close>

subsection \<open>Evaluation of the examples\<close>

lemmas path_defs = filepath_Join_def filepath_Clean_def filepath_Base_def filepath_Ext_def
  filepath_Split_def last_elem_def strip_slashes_def strings_TrimSuffix_def
  strings_HasSuffix_def strings_HasPrefix_def strings_ToLower_def strings_EqualFold_def
  lower_char_def

lemmas demo_defs = demo_sys_def demo_w0_def demo_r0_def photo_X_def plain_Y_def
  demo_empty_file_def may_2020_def demo_w1_def demo_r1_def demo_w2_def demo_r2_def
  cksum_X_def placed_A_def readonly_sys_def NewState_def

lemmas proc_defs = processFile_def processDuplicate_def processCanonical_def
  chooseDestPath_def resolveIfExists_def resolveNamingConflict_def copyFile_def
  resolveDate_def getPhotoCreationDate_def getVideoCreationDate_def isVideoFile_def
  videoExtensions_def calculateChecksum_def destFolder_of_def destFileName_of_def
  Format_def appendInt_def IsZero_def time_zero_def numbered_def Let_def

lemma hex_X: "hex_EncodeToString 0xabcdef01000000000000000000000000 = cksum_X"
  by (simp add: hex_EncodeToString_def hex_char_def upt_rec drop_bit_eq_div cksum_X_def)


lemma demo_step_A:
  "processFile demo_sys ''/s/A.jpg'' ''/d'' ''/d/duplicates'' ''/d/nodata'' ''log'' demo_r0
     = Some (Returned None, demo_r1)"
  unfolding hex_X [unfolded cksum_X_def, symmetric]
  by (simp add: proc_defs demo_defs path_defs hex_X [unfolded cksum_X_def] itoa.simps digit_char_def)

lemma demo_step_B:
  "processFile demo_sys ''/s/B.jpg'' ''/d'' ''/d/duplicates'' ''/d/nodata'' ''log'' demo_r1
     = Some (Returned None, demo_r2)"
  by (simp add: proc_defs demo_defs path_defs hex_X [unfolded cksum_X_def] itoa.simps digit_char_def
        IncrementDuplicates_def)

lemma readonly_step_A:
  "processFile readonly_sys ''/s/A.jpg'' ''/d'' ''/d/duplicates'' ''/d/nodata'' ''log'' demo_r0
     = Some (Returned (Some (FailedToCopyFile FailedToCreateDestinationFile)), demo_r0)"
  by (simp add: proc_defs demo_defs path_defs hex_X [unfolded cksum_X_def] itoa.simps digit_char_def)

subsection \<open>What one call of processFile does to the map\<close>

lemma processDuplicate_error:
  "processDuplicate sys p duplicatesDir logFile c paths r = Some (Returned (Some e), r') \<Longrightarrow>
   duplicates_map r' = duplicates_map r \<and> state r' = state r"
  by (auto simp: processDuplicate_def Let_def split: option.splits prod.splits list.splits)

lemma processCanonical_error:
  "processCanonical sys p destDir noDataDir date c r = Some (Returned (Some e), r') \<Longrightarrow>
   duplicates_map r' = duplicates_map r \<and> state r' = state r"
  by (auto simp: processCanonical_def split: option.splits prod.splits sum.splits)

lemma processDuplicate_map:
  "processDuplicate sys p duplicatesDir logFile c paths r = Some (out, r') \<Longrightarrow>
   duplicates_map r' = duplicates_map r \<or> duplicates_map r' = (duplicates_map r)(c \<mapsto> paths @ [p])"
  by (auto simp: processDuplicate_def Let_def split: option.splits prod.splits list.splits)

lemma processCanonical_map:
  "processCanonical sys p destDir noDataDir date c r = Some (out, r') \<Longrightarrow>
   duplicates_map r' = duplicates_map r
   \<or> (\<exists>destPath. duplicates_map r' = (duplicates_map r)(c \<mapsto> [destPath]))"
  by (auto simp: processCanonical_def split: option.splits prod.splits sum.splits)

lemma processFile_map:
  assumes "processFile sys p destDir duplicatesDir noDataDir logFile r = Some (out, r')"
  shows "duplicates_map r' = duplicates_map r
       \<or> (\<exists>c paths. duplicates_map r c = Some paths
                    \<and> duplicates_map r' = (duplicates_map r)(c \<mapsto> paths @ [p]))
       \<or> (\<exists>c destPath. duplicates_map r c = None
                    \<and> duplicates_map r' = (duplicates_map r)(c \<mapsto> [destPath]))"
  using assms
  by (auto simp: processFile_def Let_def split: if_splits sum.splits option.splits
           dest!: processDuplicate_map processCanonical_map)

lemma processFile_first:
  assumes "processFile sys p destDir duplicatesDir noDataDir logFile r = Some (out, r')"
      and "duplicates_map r k = Some (first # rest)"
  shows "\<exists>more. duplicates_map r' k = Some (first # rest @ more)"
  using processFile_map [OF assms(1)] assms(2) by (auto split: if_splits)

lemma after_file_map [simp]: "duplicates_map (after_file err r) = duplicates_map r"
  by (simp add: after_file_def Let_def)

lemma workers_first:
  "workers sys destDir duplicatesDir noDataDir logFile ps r = Some (out, r') \<Longrightarrow>
   duplicates_map r k = Some (first # rest) \<Longrightarrow>
   \<exists>more. duplicates_map r' k = Some (first # rest @ more)"
proof (induction ps arbitrary: r rest)
  case Nil
  then show ?case by simp
next
  case (Cons p ps)
  from Cons.prems(1) obtain o1 r1 where
    pf: "processFile sys p destDir duplicatesDir noDataDir logFile r = Some (o1, r1)"
    by (auto split: option.splits)
  from processFile_first [OF pf Cons.prems(2)] obtain m1 where
    m1: "duplicates_map r1 k = Some (first # rest @ m1)" by blast
  show ?case
  proof (cases o1)
    case Panicked
    with Cons.prems(1) pf have "r' = r1" by simp
    with m1 show ?thesis by blast
  next
    case (Returned err)
    with Cons.prems(1) pf have
      "workers sys destDir duplicatesDir noDataDir logFile ps (after_file err r1) = Some (out, r')"
      by simp
    from Cons.IH [OF this, of "rest @ m1"] m1 show ?thesis by auto
  qed
qed

subsection \<open>The first path of a checksum\<close>

text \<open>
  Claim C1. In every run, whatever the order in which the files are handled, and for
  every checksum: once the map holds a list for the checksum, the first path of that
  list stays its first path, and the list only grows at its end. A single call of
  processFile leaves the map as it is, or appends to the list of a checksum the map
  holds, or registers a one-element list for a checksum the map does not hold; so a
  second file with the content of a registered one is never registered as canonical.
\<close>

theorem first_path_never_replaced:
  "(workers sys destDir duplicatesDir noDataDir logFile ps r = Some (out, r')
      \<and> duplicates_map r k = Some (first # rest)
      \<longrightarrow> (\<exists>more. duplicates_map r' k = Some (first # rest @ more)))
   \<and> (processFile sys p destDir duplicatesDir noDataDir logFile r = Some (out1, r1)
      \<longrightarrow> duplicates_map r1 = duplicates_map r
        \<or> (\<exists>c paths. duplicates_map r c = Some paths
                     \<and> duplicates_map r1 = (duplicates_map r)(c \<mapsto> paths @ [p]))
        \<or> (\<exists>c destPath. duplicates_map r c = None
                     \<and> duplicates_map r1 = (duplicates_map r)(c \<mapsto> [destPath])))"
proof (intro conjI impI)
  assume "workers sys destDir duplicatesDir noDataDir logFile ps r = Some (out, r')
            \<and> duplicates_map r k = Some (first # rest)"
  then show "\<exists>more. duplicates_map r' k = Some (first # rest @ more)"
    by (elim conjE) (rule workers_first)
next
  assume "processFile sys p destDir duplicatesDir noDataDir logFile r = Some (out1, r1)"
  then show "duplicates_map r1 = duplicates_map r
        \<or> (\<exists>c paths. duplicates_map r c = Some paths
                     \<and> duplicates_map r1 = (duplicates_map r)(c \<mapsto> paths @ [p]))
        \<or> (\<exists>c destPath. duplicates_map r c = None
                     \<and> duplicates_map r1 = (duplicates_map r)(c \<mapsto> [destPath]))"
    by (rule processFile_map)
qed

theorem first_path_never_replaced_witness:
  "workers demo_sys ''/d'' ''/d/duplicates'' ''/d/nodata'' ''log'' [''/s/B.jpg''] demo_r1
     = Some (Returned (), after_file None demo_r2)
   \<and> duplicates_map demo_r1 cksum_X = Some [placed_A]
   \<and> (\<exists>more. duplicates_map (after_file None demo_r2) cksum_X = Some (placed_A # [] @ more))
   \<and> processFile demo_sys ''/s/B.jpg'' ''/d'' ''/d/duplicates'' ''/d/nodata'' ''log'' demo_r1
       = Some (Returned None, demo_r2)
   \<and> duplicates_map demo_r2 = (duplicates_map demo_r1)(cksum_X \<mapsto> [placed_A] @ [''/s/B.jpg''])"
proof -
  have run: "workers demo_sys ''/d'' ''/d/duplicates'' ''/d/nodata'' ''log'' [''/s/B.jpg''] demo_r1
     = Some (Returned (), after_file None demo_r2)"
    by (simp add: demo_step_B)
  have held: "duplicates_map demo_r1 cksum_X = Some [placed_A]"
    by (simp add: demo_r1_def)
  have grown: "duplicates_map demo_r2 = (duplicates_map demo_r1)(cksum_X \<mapsto> [placed_A] @ [''/s/B.jpg''])"
    by (simp add: demo_r2_def demo_r1_def)
  from first_path_never_replaced [of demo_sys "''/d''" "''/d/duplicates''" "''/d/nodata''"
      "''log''" "[''/s/B.jpg'']" demo_r1 "Returned ()" "after_file None demo_r2" cksum_X
      placed_A "[]"] run held
  have "\<exists>more. duplicates_map (after_file None demo_r2) cksum_X = Some (placed_A # [] @ more)"
    by blast
  with run held grown demo_step_B show ?thesis by blast
qed

subsection \<open>A failed file leaves the map alone\<close>

text \<open>
  Claim C10. Whenever processFile returns an error (the file cannot be opened, the
  seek fails, the checksum cannot be computed, the dated folder cannot be created, or
  the copy fails), the map of checksums is the one before the call: no entry was added
  and no path appended; the duplicate counter is unchanged too.
\<close>

theorem failed_file_leaves_map:
  assumes "processFile sys p destDir duplicatesDir noDataDir logFile r = Some (Returned (Some e), r')"
  shows "duplicates_map r' = duplicates_map r \<and> duplicates (state r') = duplicates (state r)"
  using assms
  by (auto simp: processFile_def Let_def split: if_splits sum.splits option.splits
           dest: processDuplicate_error processCanonical_error)

theorem failed_file_leaves_map_witness:
  "processFile readonly_sys ''/s/A.jpg'' ''/d'' ''/d/duplicates'' ''/d/nodata'' ''log'' demo_r0
     = Some (Returned (Some (FailedToCopyFile FailedToCreateDestinationFile)), demo_r0)
   \<and> duplicates_map demo_r0 = duplicates_map demo_r0
   \<and> duplicates (state demo_r0) = duplicates (state demo_r0)"
  using failed_file_leaves_map [OF readonly_step_A] readonly_step_A by simp

subsection \<open>Naming conflicts\<close>

lemma loop_finds:
  assumes "stat (numbered dir base ext k) = StatNotExist"
      and "\<forall>j. i \<le> j \<and> j < k \<longrightarrow> stat (numbered dir base ext j) \<noteq> StatNotExist"
      and "i \<le> k"
  shows "resolveNamingConflict_loop stat dir base ext i = Some (numbered dir base ext k)"
  using assms
proof (induction "k - i" arbitrary: i)
  case 0
  then have "i = k" by simp
  with "0.prems"(1) show ?case
    by (subst resolveNamingConflict_loop.simps) simp
next
  case (Suc n)
  then have lt: "i < k" by simp
  with Suc.prems(2) have occupied: "stat (numbered dir base ext i) \<noteq> StatNotExist" by simp
  have "resolveNamingConflict_loop stat dir base ext (i + 1) = Some (numbered dir base ext k)"
  proof (rule Suc.hyps(1))
    show "n = k - (i + 1)" using Suc.hyps(2) by simp
    show "stat (numbered dir base ext k) = StatNotExist" by (rule Suc.prems(1))
    show "\<forall>j. i + 1 \<le> j \<and> j < k \<longrightarrow> stat (numbered dir base ext j) \<noteq> StatNotExist"
      using Suc.prems(2) by simp
    show "i + 1 \<le> k" using lt by simp
  qed
  with occupied show ?case
    by (subst resolveNamingConflict_loop.simps) simp
qed

text \<open>
  Claim C6. resolveNamingConflict splits the path into directory, base name and
  extension and returns the name with \<open>_i\<close> before the extension for the smallest
  \<open>i \<ge> 1\<close> that os.Stat reports as not existing, trying 1, 2, ... in turn; it
  returns as soon as such an \<open>i\<close> exists. processFile calls it for a target that
  exists. On a file test.txt the first collision gives test_1.txt and, once that
  exists, the second gives test_2.txt.
\<close>

theorem resolveNamingConflict_smallest_free:
  assumes "filepath_Split p = (dir, file)"
      and "ext = filepath_Ext file"
      and "base = strings_TrimSuffix file ext"
      and "1 \<le> i"
      and "os_Stat sys w (filepath_Join [dir, base @ ''_'' @ itoa i @ ext]) = StatNotExist"
      and "\<forall>j. 1 \<le> j \<and> j < i \<longrightarrow>
             os_Stat sys w (filepath_Join [dir, base @ ''_'' @ itoa j @ ext]) \<noteq> StatNotExist"
  shows "resolveNamingConflict sys w p = Some (filepath_Join [dir, base @ ''_'' @ itoa i @ ext])
       \<and> (stat_ok (os_Stat sys w p) \<longrightarrow>
            resolveIfExists sys w p = Some (filepath_Join [dir, base @ ''_'' @ itoa i @ ext]))"
proof -
  have "resolveNamingConflict_loop (os_Stat sys w) dir base ext 1 = Some (numbered dir base ext i)"
    using assms(4-6) by (intro loop_finds) (simp_all add: numbered_def)
  then have "resolveNamingConflict sys w p = Some (filepath_Join [dir, base @ ''_'' @ itoa i @ ext])"
    using assms(1-3) by (simp add: resolveNamingConflict_def Let_def numbered_def)
  then show ?thesis by (simp add: resolveIfExists_def)
qed

lemma test_split: "filepath_Split ''/t/test.txt'' = (''/t/'', ''test.txt'')"
  by (simp add: path_defs)
lemma test_ext: "''.txt'' = filepath_Ext ''test.txt''"
  by (simp add: path_defs)
lemma test_base: "''test'' = strings_TrimSuffix ''test.txt'' ''.txt''"
  by (simp add: path_defs)
lemma test_name1: "filepath_Join [''/t/'', ''test'' @ ''_'' @ itoa 1 @ ''.txt''] = ''/t/test_1.txt''"
  by (simp add: path_defs itoa.simps digit_char_def)
lemma test_name2: "filepath_Join [''/t/'', ''test'' @ ''_'' @ itoa 2 @ ''.txt''] = ''/t/test_2.txt''"
  by (simp add: path_defs itoa.simps digit_char_def)
lemma test_w1_files: "d_files test_w1 = [(''/t/test_1.txt'', plain_Y), (''/t/test_1.txt'', demo_empty_file), (''/t/test.txt'', plain_Y)]"
  by (simp add: test_w1_def test_w_def copyFile_def demo_sys_def plain_Y_def)

theorem resolveNamingConflict_smallest_free_witness:
  "resolveNamingConflict demo_sys test_w ''/t/test.txt'' = Some ''/t/test_1.txt''
   \<and> fst (copyFile demo_sys test_w ''/t/test.txt'' ''/t/test_1.txt'') = None
   \<and> resolveNamingConflict demo_sys test_w1 ''/t/test.txt'' = Some ''/t/test_2.txt''
   \<and> resolveIfExists demo_sys test_w1 ''/t/test.txt'' = Some ''/t/test_2.txt''"
proof -
  have free1: "os_Stat demo_sys test_w (filepath_Join [''/t/'', ''test'' @ ''_'' @ itoa 1 @ ''.txt'']) = StatNotExist"
    unfolding test_name1 by (simp add: demo_sys_def test_w_def)
  have none_below1: "\<forall>j. 1 \<le> j \<and> j < (1::nat) \<longrightarrow>
      os_Stat demo_sys test_w (filepath_Join [''/t/'', ''test'' @ ''_'' @ itoa j @ ''.txt'']) \<noteq> StatNotExist"
    by simp
  have free2: "os_Stat demo_sys test_w1 (filepath_Join [''/t/'', ''test'' @ ''_'' @ itoa 2 @ ''.txt'']) = StatNotExist"
    unfolding test_name2 by (simp add: demo_sys_def test_w1_files)
  have taken1: "os_Stat demo_sys test_w1 (filepath_Join [''/t/'', ''test'' @ ''_'' @ itoa 1 @ ''.txt'']) \<noteq> StatNotExist"
    unfolding test_name1 by (simp add: demo_sys_def test_w1_files)
  have none_below2: "\<forall>j. 1 \<le> j \<and> j < (2::nat) \<longrightarrow>
      os_Stat demo_sys test_w1 (filepath_Join [''/t/'', ''test'' @ ''_'' @ itoa j @ ''.txt'']) \<noteq> StatNotExist"
  proof (intro allI impI)
    fix j :: nat assume "1 \<le> j \<and> j < 2"
    then have "j = 1" by simp
    with taken1 show "os_Stat demo_sys test_w1 (filepath_Join [''/t/'', ''test'' @ ''_'' @ itoa j @ ''.txt'']) \<noteq> StatNotExist"
      by simp
  qed
  have exists: "stat_ok (os_Stat demo_sys test_w1 ''/t/test.txt'')"
    by (simp add: demo_sys_def test_w1_files)
  have copied: "fst (copyFile demo_sys test_w ''/t/test.txt'' ''/t/test_1.txt'') = None"
    by (simp add: test_w_def copyFile_def demo_sys_def plain_Y_def)
  have first_round: "resolveNamingConflict demo_sys test_w ''/t/test.txt'' = Some ''/t/test_1.txt''"
    using resolveNamingConflict_smallest_free [OF test_split test_ext test_base _ free1 none_below1]
    unfolding test_name1 by simp
  have second_round: "resolveNamingConflict demo_sys test_w1 ''/t/test.txt'' = Some ''/t/test_2.txt''
      \<and> resolveIfExists demo_sys test_w1 ''/t/test.txt'' = Some ''/t/test_2.txt''"
    using resolveNamingConflict_smallest_free [OF test_split test_ext test_base _ free2 none_below2] exists
    unfolding test_name2 by simp
  from first_round second_round copied show ?thesis by simp
qed
subsection \<open>Files without a date\<close>





lemma length_hex: "length (hex_EncodeToString d) = 32"
  by (simp add: hex_EncodeToString_def)




subsection \<open>Files with a date\<close>

text \<open>
  Claim C5. A file whose checksum the map does not hold and whose date \<open>D\<close> is not the
  zero time is copied, once the folder \<open>dest/YYYY/MM/DD\<close> of \<open>D\<close> is made (year in four
  digits, month and day in two, padded with zeros), to the target
  \<open>dest/YYYY/MM/DD/<stem>_<c8><ext>\<close>, where \<open>c8\<close> is the first eight characters of the
  hexadecimal checksum, or to the name resolveNamingConflict gives when the target
  exists; that path is registered for the checksum. A file dated 2020-05-01 with a
  checksum that begins \<open>abcdef01\<close> lands at \<open>dest/2020/05/01/<stem>_abcdef01<ext>\<close>.
\<close>

theorem dated_file_placement:
  assumes "os_Open sys (world r) p" and "file_Seek sys (world r) p"
      and "md5_Sum sys (world r) p = Some d"
      and "duplicates_map r (hex_EncodeToString d) = None"
      and "resolveDate sys (world r) p = D" and "\<not> IsZero D"
      and "folder = filepath_Join [destDir, appendInt (Year D) 4, appendInt (Month D) 2,
                                   appendInt (Day D) 2]"
      and "c8 = take 8 (hex_EncodeToString d)"
      and "target = filepath_Join [folder,
              strings_TrimSuffix (filepath_Base p) (filepath_Ext p) @ ''_'' @ c8 @ filepath_Ext p]"
      and "os_MkdirAll sys (world r) folder = (True, w1)"
  shows "length c8 = 8
       \<and> processFile sys p destDir duplicatesDir noDataDir logFile r =
          (case resolveIfExists sys w1 target of
             None \<Rightarrow> None
           | Some destPath \<Rightarrow>
               (case copyFile sys w1 p destPath of
                  (Some err, w2) \<Rightarrow> Some (Returned (Some (FailedToCopyFile err)), r\<lparr>world := w2\<rparr>)
                | (None, w2) \<Rightarrow>
                    Some (Returned None,
                          r\<lparr>world := w2,
                            duplicates_map := (duplicates_map r)(hex_EncodeToString d \<mapsto> [destPath])\<rparr>)))
       \<and> (\<not> stat_ok (os_Stat sys w1 target) \<longrightarrow> resolveIfExists sys w1 target = Some target)"
proof -
  have c: "calculateChecksum sys (world r) p = Inr (hex_EncodeToString d)"
    using assms(3) by (simp add: calculateChecksum_def)
  have f: "destFolder_of destDir D = folder"
    using assms(7) by (simp add: destFolder_of_def Format_def)
  have n: "filepath_Join [folder, destFileName_of p (hex_EncodeToString d)] = target"
    using assms(8,9) by (simp add: destFileName_of_def)
  have l: "length c8 = 8"
    using assms(8) by (simp add: length_hex)
  have "processFile sys p destDir duplicatesDir noDataDir logFile r =
          (case resolveIfExists sys w1 target of
             None \<Rightarrow> None
           | Some destPath \<Rightarrow>
               (case copyFile sys w1 p destPath of
                  (Some err, w2) \<Rightarrow> Some (Returned (Some (FailedToCopyFile err)), r\<lparr>world := w2\<rparr>)
                | (None, w2) \<Rightarrow>
                    Some (Returned None,
                          r\<lparr>world := w2,
                            duplicates_map := (duplicates_map r)(hex_EncodeToString d \<mapsto> [destPath])\<rparr>)))"
    using assms(1,2,4,5,6,10) c
    by (simp add: processFile_def processCanonical_def chooseDestPath_def Let_def f n
          split: option.splits)
  with l show ?thesis by (simp add: resolveIfExists_def)
qed

theorem dated_file_placement_witness:
  "os_Open demo_sys (world demo_r0) ''/s/A.jpg'' \<and> file_Seek demo_sys (world demo_r0) ''/s/A.jpg''
   \<and> md5_Sum demo_sys (world demo_r0) ''/s/A.jpg'' = Some 0xabcdef01000000000000000000000000
   \<and> duplicates_map demo_r0 cksum_X = None
   \<and> resolveDate demo_sys (world demo_r0) ''/s/A.jpg'' = may_2020 \<and> \<not> IsZero may_2020
   \<and> ''/d/2020/05/01'' = filepath_Join [''/d'', appendInt (Year may_2020) 4,
            appendInt (Month may_2020) 2, appendInt (Day may_2020) 2]
   \<and> ''abcdef01'' = take 8 (hex_EncodeToString 0xabcdef01000000000000000000000000)
   \<and> ''/d/2020/05/01/A_abcdef01.jpg'' = filepath_Join [''/d/2020/05/01'',
         strings_TrimSuffix (filepath_Base ''/s/A.jpg'') (filepath_Ext ''/s/A.jpg'')
           @ ''_'' @ ''abcdef01'' @ filepath_Ext ''/s/A.jpg'']
   \<and> os_MkdirAll demo_sys (world demo_r0) ''/d/2020/05/01'' = (True, demo_w0)
   \<and> length ''abcdef01'' = 8
   \<and> resolveIfExists demo_sys demo_w0 ''/d/2020/05/01/A_abcdef01.jpg''
       = Some ''/d/2020/05/01/A_abcdef01.jpg''
   \<and> processFile demo_sys ''/s/A.jpg'' ''/d'' ''/d/duplicates'' ''/d/nodata'' ''log'' demo_r0
       = Some (Returned None, demo_r1)
   \<and> duplicates_map demo_r1 cksum_X = Some [''/d/2020/05/01/A_abcdef01.jpg'']"
proof -
  have h1: "os_Open demo_sys (world demo_r0) ''/s/A.jpg''" by (simp add: demo_defs)
  have h2: "file_Seek demo_sys (world demo_r0) ''/s/A.jpg''" by (simp add: demo_defs)
  have h3: "md5_Sum demo_sys (world demo_r0) ''/s/A.jpg'' = Some 0xabcdef01000000000000000000000000"
    by (simp add: demo_defs)
  have h4: "duplicates_map demo_r0 (hex_EncodeToString 0xabcdef01000000000000000000000000) = None"
    by (simp add: demo_defs)
  have h5: "resolveDate demo_sys (world demo_r0) ''/s/A.jpg'' = may_2020"
    by (simp add: resolveDate_def getPhotoCreationDate_def isVideoFile_def videoExtensions_def
          demo_defs path_defs)
  have h6: "\<not> IsZero may_2020" by (simp add: IsZero_def time_zero_def may_2020_def)
  have h7: "''/d/2020/05/01'' = filepath_Join [''/d'', appendInt (Year may_2020) 4,
            appendInt (Month may_2020) 2, appendInt (Day may_2020) 2]"
    by (simp add: path_defs appendInt_def may_2020_def itoa.simps digit_char_def)
  have h8: "''abcdef01'' = take 8 (hex_EncodeToString 0xabcdef01000000000000000000000000)"
    by (simp add: hex_X cksum_X_def)
  have h9: "''/d/2020/05/01/A_abcdef01.jpg'' = filepath_Join [''/d/2020/05/01'',
         strings_TrimSuffix (filepath_Base ''/s/A.jpg'') (filepath_Ext ''/s/A.jpg'')
           @ ''_'' @ ''abcdef01'' @ filepath_Ext ''/s/A.jpg'']"
    by (simp add: path_defs)
  have h10: "os_MkdirAll demo_sys (world demo_r0) ''/d/2020/05/01'' = (True, demo_w0)"
    by (simp add: demo_defs)
  have free: "\<not> stat_ok (os_Stat demo_sys demo_w0 ''/d/2020/05/01/A_abcdef01.jpg'')"
    by (simp add: demo_defs)
  have reg: "duplicates_map demo_r1 cksum_X = Some [''/d/2020/05/01/A_abcdef01.jpg'']"
    by (simp add: demo_r1_def placed_A_def)
  have none: "duplicates_map demo_r0 cksum_X = None" by (simp add: demo_defs)
  from dated_file_placement [OF h1 h2 h3 h4 h5 h6 h7 h8 h9 h10, of "''/d/duplicates''" "''/d/nodata''" "''log''"] free
  have "length ''abcdef01'' = 8
      \<and> resolveIfExists demo_sys demo_w0 ''/d/2020/05/01/A_abcdef01.jpg''
          = Some ''/d/2020/05/01/A_abcdef01.jpg''"
    by simp
  with h1 h2 h3 h5 h6 h7 h8 h9 h10 reg none demo_step_A show ?thesis by blast
qed

subsection \<open>What the map stores, and how files are transferred\<close>

lemma processDuplicate_ok:
  assumes "processDuplicate sys p duplicatesDir logFile c paths r = Some (Returned None, r')"
  shows "duplicates_map r' = (duplicates_map r)(c \<mapsto> paths @ [p])
       \<and> (\<exists>dup w1. resolveIfExists sys (world r) (filepath_Join [duplicatesDir, filepath_Base p]) = Some dup
                  \<and> copyFile sys (world r) p dup = (None, w1))"
  using assms
  by (auto simp: processDuplicate_def Let_def split: option.splits prod.splits list.splits)

lemma processCanonical_ok:
  assumes "processCanonical sys p destDir noDataDir date c r = Some (Returned None, r')"
  shows "\<exists>destPath w0 w1. chooseDestPath sys p destDir noDataDir date c (world r) = Some (Inr destPath, w0)
            \<and> copyFile sys w0 p destPath = (None, w1)
            \<and> duplicates_map r' = (duplicates_map r)(c \<mapsto> [destPath])"
  using assms
  by (auto simp: processCanonical_def split: option.splits prod.splits sum.splits)

text \<open>
  Claim C3, as amended. When processFile succeeds on a file with checksum \<open>c\<close>: if the
  map did not hold \<open>c\<close>, the file was copied to the destination path chosen for it and
  the map now holds the one-element list of that destination path; if the map held
  \<open>c\<close>, the file was copied into the duplicates directory, and the path appended to the
  list of \<open>c\<close> is the path processFile was called with, the source path of the
  duplicate.
\<close>

theorem map_stores_destination_then_sources:
  assumes "processFile sys p destDir duplicatesDir noDataDir logFile r = Some (Returned None, r')"
  shows "\<exists>d. md5_Sum sys (world r) p = Some d \<and>
          (case duplicates_map r (hex_EncodeToString d) of
             Some paths \<Rightarrow>
               duplicates_map r' = (duplicates_map r)(hex_EncodeToString d \<mapsto> paths @ [p])
               \<and> (\<exists>dup w1. resolveIfExists sys (world r)
                               (filepath_Join [duplicatesDir, filepath_Base p]) = Some dup
                          \<and> copyFile sys (world r) p dup = (None, w1))
           | None \<Rightarrow>
               (\<exists>destPath w0 w1.
                   chooseDestPath sys p destDir noDataDir (resolveDate sys (world r) p)
                     (hex_EncodeToString d) (world r) = Some (Inr destPath, w0)
                   \<and> copyFile sys w0 p destPath = (None, w1)
                   \<and> duplicates_map r' = (duplicates_map r)(hex_EncodeToString d \<mapsto> [destPath])))"
proof -
  from assms obtain d where d: "md5_Sum sys (world r) p = Some d"
    by (auto simp: processFile_def Let_def calculateChecksum_def split: if_splits option.splits)
  then have c: "calculateChecksum sys (world r) p = Inr (hex_EncodeToString d)"
    by (simp add: calculateChecksum_def)
  show ?thesis
  proof (cases "duplicates_map r (hex_EncodeToString d)")
    case None
    with assms c have "processCanonical sys p destDir noDataDir (resolveDate sys (world r) p)
        (hex_EncodeToString d) r = Some (Returned None, r')"
      by (simp add: processFile_def Let_def split: if_splits)
    from processCanonical_ok [OF this] d None show ?thesis by simp
  next
    case (Some paths)
    with assms c have "processDuplicate sys p duplicatesDir logFile (hex_EncodeToString d) paths r
        = Some (Returned None, r')"
      by (simp add: processFile_def Let_def split: if_splits)
    from processDuplicate_ok [OF this] d Some show ?thesis by simp
  qed
qed

text \<open>
  Claim C3 as stated fails: B has the content of A, which was placed first; B is copied
  to \<open>/d/duplicates/B.jpg\<close>, and the path appended to the list is \<open>/s/B.jpg\<close>, which is
  not under the destination \<open>/d\<close>.
\<close>

theorem duplicate_appends_source_path:
  "processFile demo_sys ''/s/B.jpg'' ''/d'' ''/d/duplicates'' ''/d/nodata'' ''log'' demo_r1
     = Some (Returned None, demo_r2)
   \<and> duplicates_map demo_r2 cksum_X = Some [''/d/2020/05/01/A_abcdef01.jpg'', ''/s/B.jpg'']
   \<and> \<not> strings_HasPrefix ''/s/B.jpg'' ''/d''
   \<and> os_Stat demo_sys (world demo_r2) ''/d/duplicates/B.jpg'' = StatOk 420
   \<and> os_Stat demo_sys (world demo_r1) ''/d/duplicates/B.jpg'' = StatNotExist"
  using demo_step_B by (simp add: demo_defs strings_HasPrefix_def)

theorem map_stores_destination_then_sources_witness:
  "processFile demo_sys ''/s/B.jpg'' ''/d'' ''/d/duplicates'' ''/d/nodata'' ''log'' demo_r1
     = Some (Returned None, demo_r2)
   \<and> (\<exists>d. md5_Sum demo_sys (world demo_r1) ''/s/B.jpg'' = Some d \<and>
          (case duplicates_map demo_r1 (hex_EncodeToString d) of
             Some paths \<Rightarrow>
               duplicates_map demo_r2 = (duplicates_map demo_r1)(hex_EncodeToString d \<mapsto> paths @ [''/s/B.jpg''])
               \<and> (\<exists>dup w1. resolveIfExists demo_sys (world demo_r1)
                               (filepath_Join [''/d/duplicates'', filepath_Base ''/s/B.jpg'']) = Some dup
                          \<and> copyFile demo_sys (world demo_r1) ''/s/B.jpg'' dup = (None, w1))
           | None \<Rightarrow>
               (\<exists>destPath w0 w1.
                   chooseDestPath demo_sys ''/s/B.jpg'' ''/d'' ''/d/nodata'' (resolveDate demo_sys (world demo_r1) ''/s/B.jpg'')
                     (hex_EncodeToString d) (world demo_r1) = Some (Inr destPath, w0)
                   \<and> copyFile demo_sys w0 ''/s/B.jpg'' destPath = (None, w1)
                   \<and> duplicates_map demo_r2 = (duplicates_map demo_r1)(hex_EncodeToString d \<mapsto> [destPath]))))"
  using map_stores_destination_then_sources [OF demo_step_B] demo_step_B by simp

lemma copyFile_rename [simp]: "copyFile (sys\<lparr>os_Rename := ren\<rparr>) = copyFile sys"
  by (simp add: copyFile_def fun_eq_iff
        cong: prod.case_cong stat_result.case_cong if_cong)

lemma resolveIfExists_rename [simp]: "resolveIfExists (sys\<lparr>os_Rename := ren\<rparr>) = resolveIfExists sys"
  by (simp add: resolveIfExists_def resolveNamingConflict_def fun_eq_iff)

lemma resolveDate_rename [simp]: "resolveDate (sys\<lparr>os_Rename := ren\<rparr>) = resolveDate sys"
  by (simp add: resolveDate_def getVideoCreationDate_def getPhotoCreationDate_def fun_eq_iff
        cong: option.case_cong sum.case_cong if_cong)

lemma calculateChecksum_rename [simp]:
  "calculateChecksum (sys\<lparr>os_Rename := ren\<rparr>) = calculateChecksum sys"
  by (simp add: calculateChecksum_def fun_eq_iff)







subsection \<open>The progress state\<close>

lemma apply_state_op_total: "total (apply_state_op s x) = total s"
  by (cases x) (simp_all add: IncrementProcessed_def IncrementDuplicates_def IncrementError_def UpdateMessage_def)

lemma apply_state_op_processed:
  "processed (apply_state_op s x) = processed s + (if x = OpIncrementProcessed then 1 else 0)"
  by (cases x) (simp_all add: IncrementProcessed_def IncrementDuplicates_def IncrementError_def UpdateMessage_def)

lemma apply_state_ops_total: "total (apply_state_ops s ops) = total s"
  unfolding apply_state_ops_def
  by (induction ops arbitrary: s) (simp_all add: apply_state_op_total)

lemma apply_state_ops_processed:
  "processed (apply_state_ops s ops) = processed s + of_nat (count_list ops OpIncrementProcessed)"
  unfolding apply_state_ops_def
  by (induction ops arbitrary: s) (simp_all add: apply_state_op_processed)

lemma sint_add_nat:
  fixes x :: "64 word"
  assumes "sint x + int k < 2 ^ 63"
  shows "sint (x + of_nat k) = sint x + int k"
proof -
  have "x + of_nat k = word_of_int (sint x + int k)" by simp
  then have "sint (x + of_nat k) = signed_take_bit 63 (sint x + int k)"
    by (simp only: sint_sbintrunc') simp
  moreover have "- (2 ^ 63) \<le> sint x + int k"
    using sint_ge [of x] by simp
  ultimately show ?thesis
    using assms by (simp add: signed_take_bit_int_eq_self)
qed

text \<open>
  Claim C9, as amended. For every State and every sequence of calls of its writers,
  in any interleaving: the total never changes; the processed counter is the old one
  plus the number of IncrementProcessed calls (modulo \<open>2^64\<close>), so it never decreases as
  long as that sum stays below \<open>2^63\<close>; starting from NewState \<open>n\<close> it is at most the total
  when at most \<open>n\<close> such calls were made, and nothing in State enforces that; Status
  returns the current record, all fields from the same moment.
\<close>

theorem state_counters:
  "total (apply_state_ops s ops) = total s
   \<and> processed (apply_state_ops s ops) = processed s + of_nat (count_list ops OpIncrementProcessed)
   \<and> (sint (processed s) + int (count_list ops OpIncrementProcessed) < 2 ^ 63 \<longrightarrow>
        sint (processed s) \<le> sint (processed (apply_state_ops s ops)))
   \<and> (int (count_list ops OpIncrementProcessed) \<le> sint n \<longrightarrow>
        sint (processed (apply_state_ops (NewState n) ops))
          \<le> sint (total (apply_state_ops (NewState n) ops)))
   \<and> Status (apply_state_ops s ops) = apply_state_ops s ops
   \<and> GetProcessedCount (Status s) = processed s \<and> GetTotalCount (Status s) = total s"
proof -
  let ?k = "count_list ops OpIncrementProcessed"
  have mono: "sint (processed s) \<le> sint (processed (apply_state_ops s ops))"
    if "sint (processed s) + int ?k < 2 ^ 63"
    using sint_add_nat [OF that] by (simp add: apply_state_ops_processed)
  have bound: "sint (processed (apply_state_ops (NewState n) ops))
          \<le> sint (total (apply_state_ops (NewState n) ops))"
    if le: "int ?k \<le> sint n"
  proof -
    have "sint (processed (NewState n)) + int ?k < 2 ^ 63"
      using le sint_lt [of n] by (simp add: NewState_def)
    from sint_add_nat [OF this] le show ?thesis
      by (simp add: apply_state_ops_processed apply_state_ops_total NewState_def)
  qed
  from mono bound show ?thesis
    by (simp add: apply_state_ops_total apply_state_ops_processed Status_def
          GetProcessedCount_def GetTotalCount_def)
qed

text \<open>
  Claim C9 as stated fails: after NewState(0) and one IncrementProcessed the processed
  counter is 1 and exceeds the total 0.
\<close>

theorem processed_can_exceed_total:
  "sint (total (apply_state_ops (NewState 0) [OpIncrementProcessed]))
     < sint (processed (apply_state_ops (NewState 0) [OpIncrementProcessed]))"
  by (simp add: apply_state_ops_def NewState_def IncrementProcessed_def)

theorem state_counters_witness:
  "sint (processed (NewState 3)) + int (count_list [OpIncrementProcessed, OpUpdateMessage ''x'',
       OpIncrementError, OpIncrementProcessed] OpIncrementProcessed) < 2 ^ 63
   \<and> int (count_list [OpIncrementProcessed, OpUpdateMessage ''x'',
       OpIncrementError, OpIncrementProcessed] OpIncrementProcessed) \<le> sint (3 :: 64 word)
   \<and> processed (apply_state_ops (NewState 3) [OpIncrementProcessed, OpUpdateMessage ''x'',
       OpIncrementError, OpIncrementProcessed]) = 2
   \<and> sint (processed (NewState 3)) \<le> sint (processed (apply_state_ops (NewState 3)
       [OpIncrementProcessed, OpUpdateMessage ''x'', OpIncrementError, OpIncrementProcessed]))
   \<and> sint (processed (apply_state_ops (NewState 3)
       [OpIncrementProcessed, OpUpdateMessage ''x'', OpIncrementError, OpIncrementProcessed]))
      \<le> sint (total (apply_state_ops (NewState 3)
       [OpIncrementProcessed, OpUpdateMessage ''x'', OpIncrementError, OpIncrementProcessed]))"
proof -
  let ?ops = "[OpIncrementProcessed, OpUpdateMessage ''x'', OpIncrementError, OpIncrementProcessed]"
  have h1: "sint (processed (NewState 3)) + int (count_list ?ops OpIncrementProcessed) < 2 ^ 63"
    by (simp add: NewState_def)
  have h2: "int (count_list ?ops OpIncrementProcessed) \<le> sint (3 :: 64 word)"
    by simp
  from state_counters [of "NewState 3" ?ops 3] h1 h2
  have "processed (apply_state_ops (NewState 3) ?ops) = 2
      \<and> sint (processed (NewState 3)) \<le> sint (processed (apply_state_ops (NewState 3) ?ops))
      \<and> sint (processed (apply_state_ops (NewState 3) ?ops))
          \<le> sint (total (apply_state_ops (NewState 3) ?ops))"
    by (simp add: NewState_def)
  with h1 h2 show ?thesis by blast
qed

subsection \<open>Video dates\<close>















lemma skip_char: "c \<noteq> CHR '' '' \<Longrightarrow> skip (c # rest) [c] = Some rest"
  by simp




























subsection \<open>Every file is counted\<close>
























end
